theory Spec2Isabelle
  imports Main
begin

section \<open>Campus Data Workflow Automation System: the bootstrap module main.py\<close>

text \<open>
  main.py is a module of four top-level statements and one function:
  \<^verbatim>\<open>
  from database.db import engine
  from database import models
  models.Base.metadata.create_all(bind=engine)
  app = FastAPI(title="Campus Data Workflow Automation System", version="0.1.0")
  @app.get("/")
  def root():
      return {"status": "Backend running", "module": "Foundation", "database": "SQLite"}
  \<close>
  The module is embedded as state passing over a record that holds the module's two
  global names, the database behind the engine and a trace of what module load has done.
  An exception is the left injection of a sum; nothing in main.py catches one.
\<close>

subsection \<open>HTTP data\<close>

datatype http_method = GET | HEAD | POST | PUT | DELETE | PATCH | OPTIONS

record request =
  meth :: http_method
  path :: string
  headers :: "(string \<times> string) list"
  body :: string

text \<open>A Python dict of strings, in insertion order.\<close>

type_synonym dict = "(string \<times> string) list"

text \<open>
  What a response carries: the JSON encoding of a dict returned by an endpoint, the
  OpenAPI document (of which only the info block, title and version, is kept), one of
  the framework's HTML pages, named by its path, or a line of plain text.
\<close>

datatype content = Json dict | OpenAPI string string | Html string | PlainText string

record response =
  status_code :: nat
  content :: content

subsection \<open>The application object\<close>

text \<open>
  The endpoints a route can lead to: \<open>Root\<close> is the function \<open>root\<close> of main.py, the others
  are the framework's own documentation endpoints.
\<close>

datatype endpoint = Root | OpenapiJson | SwaggerUiHtml | SwaggerUiRedirect | RedocHtml

record route =
  route_path :: string
  methods :: "http_method list"
  endpoint :: endpoint
  route_status :: nat

record app =
  title :: string
  version :: string
  openapi_url :: "string option"
  docs_url :: "string option"
  redoc_url :: "string option"
  swagger_ui_oauth2_redirect_url :: "string option"
  openapi_schema :: "(string \<times> string) option"
  routes :: "route list"

text \<open>
  The framework's \<open>add_route\<close> (used by the constructor for its documentation pages):
  a plain route, which answers GET and, because it answers GET, HEAD.
\<close>

definition add_route :: "string \<Rightarrow> endpoint \<Rightarrow> app \<Rightarrow> app" where
  "add_route p ep a =
     a\<lparr>routes := routes a @
          [\<lparr>route_path = p, methods = [GET, HEAD], endpoint = ep, route_status = 200\<rparr>]\<rparr>"

text \<open>
  The constructor's last step, its method \<open>setup\<close>: one route per documentation URL
  that is set.
\<close>

definition app_setup :: "app \<Rightarrow> app" where
  "app_setup a =
     (let a1 = (case openapi_url a of
                  None \<Rightarrow> a
                | Some u \<Rightarrow> add_route u OpenapiJson a);
          a2 = (case (openapi_url a, docs_url a) of
                  (Some u, Some d) \<Rightarrow>
                    (let a' = add_route d SwaggerUiHtml a1 in
                     case swagger_ui_oauth2_redirect_url a of
                       None \<Rightarrow> a'
                     | Some r \<Rightarrow> add_route r SwaggerUiRedirect a')
                | _ \<Rightarrow> a1);
          a3 = (case (openapi_url a, redoc_url a) of
                  (Some u, Some r) \<Rightarrow> add_route r RedocHtml a2
                | _ \<Rightarrow> a2)
      in a3)"

text \<open>
  \<open>FastAPI(title=..., version=...)\<close>: main.py passes the title and the version only, so
  every other parameter of the constructor has the framework's default, the
  documentation URLs among them.
\<close>

definition FastAPI :: "string \<Rightarrow> string \<Rightarrow> app" where
  "FastAPI t v =
     app_setup \<lparr>title = t, version = v,
            openapi_url = Some ''/openapi.json'',
            docs_url = Some ''/docs'',
            redoc_url = Some ''/redoc'',
            swagger_ui_oauth2_redirect_url = Some ''/docs/oauth2-redirect'',
            openapi_schema = None,
            routes = []\<rparr>"

text \<open>
  The decorator \<open>@app.get(path)\<close>: an API route for GET alone, answered with the default
  status 200 since the decorator is given no \<open>status_code\<close>.
\<close>

definition app_get :: "string \<Rightarrow> endpoint \<Rightarrow> app \<Rightarrow> app" where
  "app_get p ep a =
     a\<lparr>routes := routes a @
          [\<lparr>route_path = p, methods = [GET], endpoint = ep, route_status = 200\<rparr>]\<rparr>"

subsection \<open>The database and the program state\<close>

datatype error = OperationalError

text \<open>A table is its name and its definition (the columns, as text).\<close>

type_synonym table = "string \<times> string"

record database =
  reachable :: bool
  tables :: "table list"

record engine =
  engine_id :: nat

text \<open>
  The process environment, which a Python program could read through \<open>sys.argv\<close> and
  \<open>os.environ\<close>.
\<close>

record environment =
  argv :: "string list"
  environ :: "(string \<times> string) list"

text \<open>What module load does, in the order it does it.\<close>

datatype event =
    EngineCreated nat
  | SchemaCreated nat
  | AppConstructed
  | RouteRegistered http_method string

text \<open>
  \<open>g_engine\<close> and \<open>g_app\<close> are the module's global names \<open>engine\<close> and \<open>app\<close>, \<open>None\<close>
  while unbound.
\<close>

record state =
  g_engine :: "engine option"
  g_app :: "app option"
  engines_created :: nat
  trace :: "event list"
  db :: database

definition init_state :: "database \<Rightarrow> state" where
  "init_state d =
     \<lparr>g_engine = None, g_app = None, engines_created = 0, trace = [], db = d\<rparr>"

subsection \<open>The parts of the repository that main.py imports\<close>

text \<open>
  Modelled from the spec: database/db.py, which is not among the sources. The spec says
  of it only that the engine is "created once at module load", with "no CLI flags, no
  environment variables": importing the name \<open>engine\<close> runs that module, which creates
  one engine for the configured database.
\<close>

definition import_engine :: "state \<Rightarrow> engine \<times> state" where
  "import_engine s =
     (let e = \<lparr>engine_id = engines_created s\<rparr> in
      (e, s\<lparr>g_engine := Some e,
            engines_created := Suc (engines_created s),
            trace := trace s @ [EngineCreated (engine_id e)]\<rparr>))"

text \<open>
  The tables of \<open>declared\<close>, in order, each created unless a table of its name is there.
\<close>

fun create_missing :: "table list \<Rightarrow> table list \<Rightarrow> table list" where
  "create_missing [] ts = ts"
| "create_missing (d # ds) ts =
     create_missing ds (if fst d \<in> set (map fst ts) then ts else ts @ [d])"

text \<open>
  Modelled from the spec: \<open>models.Base.metadata.create_all(bind=engine)\<close>. The method is
  the ORM's and the declared tables are database/models.py's; neither is among the
  sources, so the declared tables are a parameter and the method follows the spec:
  "ensure all declared persistent-storage schemas exist in the configured database,
  creating any missing ones; existing schemas are left untouched", and it "fails only if
  the underlying storage connection is unreachable".
\<close>

definition create_all :: "table list \<Rightarrow> engine \<Rightarrow> state \<Rightarrow> error + state" where
  "create_all declared bind s =
     (if reachable (db s)
      then Inr (s\<lparr>db := (db s)\<lparr>tables := create_missing declared (tables (db s))\<rparr>,
                  trace := trace s @ [SchemaCreated (engine_id bind)]\<rparr>)
      else Inl OperationalError)"

subsection \<open>main.py\<close>

text \<open>The function \<open>root\<close>: no parameter, one \<open>return\<close> of a dict literal.\<close>

definition root :: "state \<Rightarrow> error + (dict \<times> state)" where
  "root s =
     Inr ([(''status'', ''Backend running''),
           (''module'', ''Foundation''),
           (''database'', ''SQLite'')], s)"

text \<open>
  The module's top level, statement by statement. The import of \<open>models\<close> brings the
  declared tables, here the parameter \<open>declared\<close>. The environment is there to be read
  and no statement reads it. An error of \<open>create_all\<close> ends the load: no statement is
  inside a \<open>try\<close>.
\<close>

definition main_module :: "table list \<Rightarrow> environment \<Rightarrow> database \<Rightarrow> error + state" where
  "main_module declared env d =
     (let (engine_obj, s1) = import_engine (init_state d) in
      case create_all declared engine_obj s1 of
        Inl e \<Rightarrow> Inl e
      | Inr s2 \<Rightarrow>
          (let s3 = s2\<lparr>g_app := Some (FastAPI ''Campus Data Workflow Automation System''
                                           ''0.1.0''),
                       trace := trace s2 @ [AppConstructed]\<rparr>;
               s4 = s3\<lparr>g_app := map_option (app_get ''/'' Root) (g_app s3),
                       trace := trace s3 @ [RouteRegistered GET ''/'']\<rparr>
           in Inr s4))"

subsection \<open>Serving requests\<close>

text \<open>
  Calling an endpoint. \<open>Root\<close> calls \<open>root\<close> of main.py. The framework's OpenAPI endpoint
  builds the document from the title and the version on its first call and keeps it in
  the application object; its HTML pages are constants.
\<close>

definition call_endpoint :: "endpoint \<Rightarrow> app \<Rightarrow> state \<Rightarrow> error + (content \<times> state)" where
  "call_endpoint ep a s =
     (case ep of
        Root \<Rightarrow> (case root s of Inl e \<Rightarrow> Inl e | Inr (d, s') \<Rightarrow> Inr (Json d, s'))
      | OpenapiJson \<Rightarrow>
          (case openapi_schema a of
             Some (t, v) \<Rightarrow> Inr (OpenAPI t v, s)
           | None \<Rightarrow>
               Inr (OpenAPI (title a) (version a),
                    s\<lparr>g_app := Some (a\<lparr>openapi_schema := Some (title a, version a)\<rparr>)\<rparr>))
      | SwaggerUiHtml \<Rightarrow> Inr (Html ''/docs'', s)
      | SwaggerUiRedirect \<Rightarrow> Inr (Html ''/docs/oauth2-redirect'', s)
      | RedocHtml \<Rightarrow> Inr (Html ''/redoc'', s))"

text \<open>
  A route answers a request of one of its methods to its path. All paths registered here
  are constants.
\<close>

definition route_matches :: "request \<Rightarrow> route \<Rightarrow> bool" where
  "route_matches req r = (route_path r = path req \<and> meth req \<in> set (methods r))"

text \<open>
  The first route that answers the request is called, and its result is sent with the
  route's status; an endpoint that raises gives the framework's answer 500. \<open>None\<close> stands
  for every case in which no endpoint is called (the application is not loaded, or no
  route is registered for this method and path): what the framework answers then is no
  code of the program's, and is left out.
\<close>

definition handle :: "state \<Rightarrow> request \<Rightarrow> (response \<times> state) option" where
  "handle s req =
     (case g_app s of
        None \<Rightarrow> None
      | Some a \<Rightarrow>
          (case find (route_matches req) (routes a) of
             None \<Rightarrow> None
           | Some r \<Rightarrow>
               (case call_endpoint (endpoint r) a s of
                  Inl e \<Rightarrow>
                    Some (\<lparr>status_code = 500, content = PlainText ''Internal Server Error''\<rparr>, s)
                | Inr (c, s') \<Rightarrow> Some (\<lparr>status_code = route_status r, content = c\<rparr>, s'))))"

text \<open>The state after a sequence of requests, one after the other.\<close>

fun serve :: "state \<Rightarrow> request list \<Rightarrow> state" where
  "serve s [] = s"
| "serve s (req # reqs) =
     serve (case handle s req of None \<Rightarrow> s | Some (resp, s') \<Rightarrow> s') reqs"

subsection \<open>Auxiliary definitions\<close>

text \<open>
  The state with the cached OpenAPI document dropped: serving requests changes nothing
  else.
\<close>

definition forget_schema :: "state \<Rightarrow> state" where
  "forget_schema s = s\<lparr>g_app := map_option (\<lambda>a. a\<lparr>openapi_schema := None\<rparr>) (g_app s)\<rparr>"

text \<open>
  The route table of the loaded application: the constructor's four documentation routes,
  then the route of main.py.
\<close>

definition std_routes :: "route list" where
  "std_routes =
   [\<lparr>route_path = ''/openapi.json'', methods = [GET, HEAD], endpoint = OpenapiJson, route_status = 200\<rparr>,
    \<lparr>route_path = ''/docs'', methods = [GET, HEAD], endpoint = SwaggerUiHtml, route_status = 200\<rparr>,
    \<lparr>route_path = ''/docs/oauth2-redirect'', methods = [GET, HEAD], endpoint = SwaggerUiRedirect, route_status = 200\<rparr>,
    \<lparr>route_path = ''/redoc'', methods = [GET, HEAD], endpoint = RedocHtml, route_status = 200\<rparr>,
    \<lparr>route_path = ''/'', methods = [GET], endpoint = Root, route_status = 200\<rparr>]"

subsection \<open>Example inputs\<close>

text \<open>
  A database that already holds a table \<open>student\<close>, declarations of \<open>student\<close> (with
  other columns) and \<open>course\<close>, an environment with arguments and variables, the state in
  which the module has loaded on them, and two requests.
\<close>

abbreviation demo_db :: database where
  "demo_db \<equiv> \<lparr>reachable = True, tables = [(''student'', ''id INTEGER'')]\<rparr>"

abbreviation demo_declared :: "table list" where
  "demo_declared \<equiv> [(''student'', ''id TEXT''), (''course'', ''code TEXT'')]"

abbreviation demo_env :: environment where
  "demo_env \<equiv> \<lparr>argv = [''--reload''], environ = [(''DATABASE_URL'', ''sqlite://'')]\<rparr>"

abbreviation demo_state :: state where
  "demo_state \<equiv> projr (main_module demo_declared demo_env demo_db)"

abbreviation demo_requests :: "request list" where
  "demo_requests \<equiv>
     [\<lparr>meth = GET, path = ''/openapi.json'', headers = [], body = []\<rparr>,
      \<lparr>meth = POST, path = ''/'', headers = [], body = ''x''\<rparr>]"

section \<open>Schema creation\<close>

lemma create_missing_extends:
  "\<exists>new. create_missing ds ts = ts @ new \<and> set new \<subseteq> set ds
          \<and> fst ` set new \<inter> fst ` set ts = {}"
proof (induction ds arbitrary: ts)
  case Nil
  then show ?case by simp
next
  case (Cons d ds)
  show ?case
  proof (cases "fst d \<in> set (map fst ts)")
    case True
    with Cons.IH [of ts] show ?thesis by auto
  next
    case False
    from Cons.IH [of "ts @ [d]"] obtain new where
      n: "create_missing ds (ts @ [d]) = (ts @ [d]) @ new" "set new \<subseteq> set ds"
         "fst ` set new \<inter> fst ` set (ts @ [d]) = {}" by blast
    have "create_missing (d # ds) ts = ts @ (d # new)" using False n(1) by simp
    moreover have "set (d # new) \<subseteq> set (d # ds)" using n(2) by auto
    moreover have "fst ` set (d # new) \<inter> fst ` set ts = {}" using False n(3) by auto
    ultimately show ?thesis by blast
  qed
qed

lemma create_missing_names:
  "fst ` set (create_missing ds ts) = fst ` set ts \<union> fst ` set ds"
  by (induction ds arbitrary: ts) auto

lemma create_missing_distinct:
  "distinct (map fst ts) \<Longrightarrow> distinct (map fst (create_missing ds ts))"
  by (induction ds arbitrary: ts) auto

lemma create_missing_present:
  "fst ` set ds \<subseteq> fst ` set ts \<Longrightarrow> create_missing ds ts = ts"
  by (induction ds arbitrary: ts) auto

lemma create_missing_twice:
  "create_missing ds (create_missing ds ts) = create_missing ds ts"
  by (rule create_missing_present) (simp add: create_missing_names)

section \<open>Module load and request handling\<close>

lemma FastAPI_eq:
  "FastAPI t v =
     \<lparr>title = t, version = v,
      openapi_url = Some ''/openapi.json'', docs_url = Some ''/docs'',
      redoc_url = Some ''/redoc'',
      swagger_ui_oauth2_redirect_url = Some ''/docs/oauth2-redirect'',
      openapi_schema = None,
      routes = butlast std_routes\<rparr>"
  by (simp add: FastAPI_def app_setup_def add_route_def std_routes_def)

lemma main_module_Inr:
  "main_module declared env d = Inr s \<longleftrightarrow>
     reachable d \<and>
     s = \<lparr>g_engine = Some \<lparr>engine_id = 0\<rparr>,
          g_app = Some (app_get ''/'' Root (FastAPI ''Campus Data Workflow Automation System'' ''0.1.0'')),
          engines_created = Suc 0,
          trace = [EngineCreated 0, SchemaCreated 0, AppConstructed, RouteRegistered GET ''/''],
          db = d\<lparr>tables := create_missing declared (tables d)\<rparr>\<rparr>"
  by (auto simp: main_module_def import_engine_def init_state_def create_all_def Let_def)

lemma main_module_Inl:
  "main_module declared env d = Inl e \<longleftrightarrow> \<not> reachable d"
  by (cases e) (auto simp: main_module_def import_engine_def init_state_def create_all_def Let_def)

lemma handle_forget:
  "handle s req = Some (resp, s') \<Longrightarrow> forget_schema s' = forget_schema s"
  by (auto simp: handle_def call_endpoint_def root_def forget_schema_def
           split: option.splits sum.splits endpoint.splits prod.splits)

lemma serve_forget: "forget_schema (serve s reqs) = forget_schema s"
proof (induction reqs arbitrary: s)
  case Nil
  show ?case by simp
next
  case (Cons req reqs)
  show ?case
  proof (cases "handle s req")
    case None
    then show ?thesis using Cons.IH [of s] by simp
  next
    case (Some p)
    obtain resp s' where p: "p = (resp, s')" by (cases p)
    with Some Cons.IH [of s'] handle_forget [of s req resp s'] show ?thesis by simp
  qed
qed

lemma serve_fields:
  "g_engine (serve s reqs) = g_engine s"
  "engines_created (serve s reqs) = engines_created s"
  "trace (serve s reqs) = trace s"
  "db (serve s reqs) = db s"
  "map_option (\<lambda>a. a\<lparr>openapi_schema := None\<rparr>) (g_app (serve s reqs)) =
     map_option (\<lambda>a. a\<lparr>openapi_schema := None\<rparr>) (g_app s)"
proof -
  have eq: "forget_schema (serve s reqs) = forget_schema s" by (rule serve_forget)
  show "g_engine (serve s reqs) = g_engine s"
    using arg_cong [OF eq, of g_engine] by (simp add: forget_schema_def)
  show "engines_created (serve s reqs) = engines_created s"
    using arg_cong [OF eq, of engines_created] by (simp add: forget_schema_def)
  show "trace (serve s reqs) = trace s"
    using arg_cong [OF eq, of trace] by (simp add: forget_schema_def)
  show "db (serve s reqs) = db s"
    using arg_cong [OF eq, of db] by (simp add: forget_schema_def)
  show "map_option (\<lambda>a. a\<lparr>openapi_schema := None\<rparr>) (g_app (serve s reqs)) =
     map_option (\<lambda>a. a\<lparr>openapi_schema := None\<rparr>) (g_app s)"
    using arg_cong [OF eq, of g_app] by (simp add: forget_schema_def)
qed

lemma serve_app:
  assumes "g_app s = Some a0"
  shows "\<exists>a. g_app (serve s reqs) = Some a \<and> title a = title a0 \<and> version a = version a0
             \<and> routes a = routes a0"
proof -
  from serve_fields(5) [of s reqs] assms obtain a where
    a: "g_app (serve s reqs) = Some a" "a\<lparr>openapi_schema := None\<rparr> = a0\<lparr>openapi_schema := None\<rparr>"
    by (cases "g_app (serve s reqs)") auto
  have "title a = title a0" using arg_cong [OF a(2), of title] by simp
  moreover have "version a = version a0" using arg_cong [OF a(2), of version] by simp
  moreover have "routes a = routes a0" using arg_cong [OF a(2), of routes] by simp
  ultimately show ?thesis using a(1) by blast
qed

lemma loaded_app:
  assumes "main_module declared env d = Inr s0"
  shows "\<exists>a. g_app (serve s0 reqs) = Some a
             \<and> title a = ''Campus Data Workflow Automation System''
             \<and> version a = ''0.1.0''
             \<and> routes a = std_routes"
proof -
  from assms have "g_app s0 =
      Some (app_get ''/'' Root (FastAPI ''Campus Data Workflow Automation System'' ''0.1.0''))"
    by (simp add: main_module_Inr)
  from serve_app [OF this, of reqs] show ?thesis
    by (simp add: FastAPI_eq app_get_def std_routes_def)
qed

lemma handle_root_loaded:
  assumes "g_app s = Some a" and "routes a = std_routes"
  shows "handle s \<lparr>meth = GET, path = ''/'', headers = hs, body = b\<rparr> =
     Some (\<lparr>status_code = 200,
            content = Json [(''status'', ''Backend running''), (''module'', ''Foundation''),
                            (''database'', ''SQLite'')]\<rparr>, s)"
  using assms
  by (simp add: handle_def std_routes_def route_matches_def call_endpoint_def root_def)

lemma main_module_loads:
  "reachable d \<Longrightarrow> main_module declared env d = Inr (projr (main_module declared env d))"
  by (simp add: main_module_def import_engine_def init_state_def create_all_def Let_def)

lemma demo_loads: "main_module demo_declared demo_env demo_db = Inr demo_state"
  by (rule main_module_loads) simp

lemma main_module_not_isl:
  "reachable d \<Longrightarrow> \<not> isl (main_module declared env d)"
  by (simp add: main_module_def import_engine_def init_state_def create_all_def Let_def)

section \<open>The claims\<close>

text \<open>
  C1. Once the module has loaded, every GET request to the path / is answered with
  status 200 and the JSON body of exactly the three keys status, module and database with
  the values "Backend running", "Foundation" and "SQLite", whatever the request's headers
  and body are and whatever requests were served before it.
\<close>

theorem get_root_response:
  assumes "main_module declared env d = Inr s0"
  shows "map_option fst
           (handle (serve s0 reqs) \<lparr>meth = GET, path = ''/'', headers = hs, body = b\<rparr>) =
         Some \<lparr>status_code = 200,
               content = Json [(''status'', ''Backend running''), (''module'', ''Foundation''),
                               (''database'', ''SQLite'')]\<rparr>"
proof -
  from loaded_app [OF assms, of reqs] obtain a where
    "g_app (serve s0 reqs) = Some a" "routes a = std_routes" by blast
  from handle_root_loaded [OF this] show ?thesis by simp
qed

theorem get_root_response_witness:
  "main_module demo_declared demo_env demo_db = Inr demo_state \<and>
   map_option fst
     (handle (serve demo_state demo_requests)
        \<lparr>meth = GET, path = ''/'', headers = [(''accept'', ''text/html'')], body = ''x''\<rparr>) =
   Some \<lparr>status_code = 200,
         content = Json [(''status'', ''Backend running''), (''module'', ''Foundation''),
                         (''database'', ''SQLite'')]\<rparr>"
  by (rule conjI [OF demo_loads get_root_response [OF demo_loads]])

text \<open>
  C2. Schema creation is idempotent: after one successful call, a second call with the
  same declarations succeeds and leaves the database as the first call left it; no table
  name occurs twice in it if none did before; and loading the module again on the database
  a load has left gives the same state as that load.
\<close>

theorem create_all_idempotent:
  assumes "create_all declared bind s = Inr s1"
  shows "(\<exists>s2. create_all declared bind s1 = Inr s2 \<and> db s2 = db s1)
         \<and> (distinct (map fst (tables (db s))) \<longrightarrow> distinct (map fst (tables (db s1))))
         \<and> (\<forall>env d s0. main_module declared env d = Inr s0 \<longrightarrow>
                          main_module declared env (db s0) = Inr s0)"
proof (intro conjI allI impI)
  from assms have r: "reachable (db s)"
    and s1: "db s1 = (db s)\<lparr>tables := create_missing declared (tables (db s))\<rparr>"
    by (auto simp: create_all_def split: if_splits)
  show "\<exists>s2. create_all declared bind s1 = Inr s2 \<and> db s2 = db s1"
    using r s1 by (simp add: create_all_def create_missing_twice)
  show "distinct (map fst (tables (db s1)))" if "distinct (map fst (tables (db s)))"
    using that s1 by (simp add: create_missing_distinct)
  show "main_module declared env (db s0) = Inr s0" if "main_module declared env d = Inr s0"
    for env d s0
    using that by (auto simp: main_module_Inr create_missing_twice)
qed

theorem create_all_idempotent_witness:
  "create_all demo_declared \<lparr>engine_id = 0\<rparr> (init_state demo_db) =
     Inr (projr (create_all demo_declared \<lparr>engine_id = 0\<rparr> (init_state demo_db)))
   \<and> (\<exists>s2. create_all demo_declared \<lparr>engine_id = 0\<rparr>
              (projr (create_all demo_declared \<lparr>engine_id = 0\<rparr> (init_state demo_db))) = Inr s2
           \<and> db s2 = db (projr (create_all demo_declared \<lparr>engine_id = 0\<rparr> (init_state demo_db))))
   \<and> distinct (map fst (tables (db (projr
          (create_all demo_declared \<lparr>engine_id = 0\<rparr> (init_state demo_db))))))
   \<and> main_module demo_declared demo_env (db demo_state) = Inr demo_state"
proof -
  have h: "create_all demo_declared \<lparr>engine_id = 0\<rparr> (init_state demo_db) =
     Inr (projr (create_all demo_declared \<lparr>engine_id = 0\<rparr> (init_state demo_db)))"
    by (simp add: create_all_def init_state_def)
  have dd: "distinct (map fst (tables (db (init_state demo_db))))"
    by (simp add: init_state_def)
  note t = create_all_idempotent [OF h]
  from t have a: "\<exists>s2. create_all demo_declared \<lparr>engine_id = 0\<rparr>
              (projr (create_all demo_declared \<lparr>engine_id = 0\<rparr> (init_state demo_db))) = Inr s2
           \<and> db s2 = db (projr (create_all demo_declared \<lparr>engine_id = 0\<rparr> (init_state demo_db)))"
    by (rule conjunct1)
  from t have b: "distinct (map fst (tables (db (projr
          (create_all demo_declared \<lparr>engine_id = 0\<rparr> (init_state demo_db))))))"
    using dd by (rule conjunct2 [THEN conjunct1, THEN mp])
  from t have "\<forall>env d s0. main_module demo_declared env d = Inr s0 \<longrightarrow>
                          main_module demo_declared env (db s0) = Inr s0"
    by (rule conjunct2 [THEN conjunct2])
  then have c: "main_module demo_declared demo_env (db demo_state) = Inr demo_state"
    using demo_loads by blast
  show ?thesis by (intro conjI h a b c)
qed

text \<open>
  C3. A successful schema creation keeps every table that was in the database, with its
  definition and in its place, adds only declared tables whose names were absent, and
  leaves no declared name without a table; the rest of the state, the global names and
  whether the database can be reached, is as before.
\<close>

theorem create_all_frame:
  assumes "create_all declared bind s = Inr s'"
  shows "(\<exists>new. tables (db s') = tables (db s) @ new
                \<and> set new \<subseteq> set declared
                \<and> fst ` set new \<inter> fst ` set (tables (db s)) = {})
         \<and> fst ` set declared \<subseteq> fst ` set (tables (db s'))
         \<and> reachable (db s') = reachable (db s)
         \<and> g_engine s' = g_engine s \<and> g_app s' = g_app s"
proof -
  from assms have s': "s' = s\<lparr>db := (db s)\<lparr>tables := create_missing declared (tables (db s))\<rparr>,
                             trace := trace s @ [SchemaCreated (engine_id bind)]\<rparr>"
    by (auto simp: create_all_def split: if_splits)
  from create_missing_extends [of declared "tables (db s)"] obtain new where
    "create_missing declared (tables (db s)) = tables (db s) @ new"
    "set new \<subseteq> set declared" "fst ` set new \<inter> fst ` set (tables (db s)) = {}" by blast
  then have "\<exists>new. tables (db s') = tables (db s) @ new \<and> set new \<subseteq> set declared
                \<and> fst ` set new \<inter> fst ` set (tables (db s)) = {}"
    using s' by auto
  moreover have "fst ` set declared \<subseteq> fst ` set (tables (db s'))"
    using s' by (simp add: create_missing_names)
  ultimately show ?thesis using s' by simp
qed

theorem create_all_frame_witness:
  "create_all demo_declared \<lparr>engine_id = 0\<rparr> (init_state demo_db) =
     Inr (projr (create_all demo_declared \<lparr>engine_id = 0\<rparr> (init_state demo_db)))
   \<and> tables (db (projr (create_all demo_declared \<lparr>engine_id = 0\<rparr> (init_state demo_db)))) =
       [(''student'', ''id INTEGER''), (''course'', ''code TEXT'')]
   \<and> fst ` set demo_declared \<subseteq> fst ` set (tables (db (projr
          (create_all demo_declared \<lparr>engine_id = 0\<rparr> (init_state demo_db)))))"
proof -
  have h: "create_all demo_declared \<lparr>engine_id = 0\<rparr> (init_state demo_db) =
     Inr (projr (create_all demo_declared \<lparr>engine_id = 0\<rparr> (init_state demo_db)))"
    by (simp add: create_all_def init_state_def)
  have v: "tables (db (projr (create_all demo_declared \<lparr>engine_id = 0\<rparr> (init_state demo_db)))) =
       [(''student'', ''id INTEGER''), (''course'', ''code TEXT'')]"
    by (simp add: create_all_def init_state_def)
  from create_all_frame [OF h]
  have c: "fst ` set demo_declared \<subseteq> fst ` set (tables (db (projr
          (create_all demo_declared \<lparr>engine_id = 0\<rparr> (init_state demo_db)))))"
    by (rule conjunct2 [THEN conjunct1])
  show ?thesis by (intro conjI h v c)
qed

text \<open>
  C4. Schema creation raises exactly when the database cannot be reached; module load
  fails exactly when its schema creation raises, with that same error, which nothing
  catches: a failed load leaves no state, so no application object to serve with.
\<close>

theorem create_all_fails_iff_unreachable:
  "(create_all declared bind s = Inl e) = (\<not> reachable (db s))
   \<and> (main_module declared env d = Inl e) =
       (create_all declared (fst (import_engine (init_state d)))
          (snd (import_engine (init_state d))) = Inl e)
   \<and> (main_module declared env d = Inl e) = (\<not> reachable d)"
  by (cases e) (auto simp: main_module_def import_engine_def init_state_def create_all_def Let_def)

text \<open>
  C5. The application object is constructed with the title "Campus Data Workflow
  Automation System" and the version "0.1.0", and has them after any sequence of
  requests: no operation changes them.
\<close>

theorem app_metadata_fixed:
  assumes "main_module declared env d = Inr s0"
  shows "\<exists>a. g_app (serve s0 reqs) = Some a
             \<and> title a = ''Campus Data Workflow Automation System''
             \<and> version a = ''0.1.0''"
  using loaded_app [OF assms, of reqs] by blast

theorem app_metadata_fixed_witness:
  "main_module demo_declared demo_env demo_db = Inr demo_state \<and>
   (\<exists>a. g_app (serve demo_state demo_requests) = Some a
        \<and> title a = ''Campus Data Workflow Automation System''
        \<and> version a = ''0.1.0'')"
  by (rule conjI [OF demo_loads app_metadata_fixed [OF demo_loads]])

text \<open>
  C6. The root operation has no side effect: in every state it returns that state
  unchanged, and a GET request to / served by the loaded application leaves the whole
  state (application object, engine, database) as it was.
\<close>

theorem root_no_side_effects:
  "(\<exists>dct. root s = Inr (dct, s))
   \<and> (main_module declared env d = Inr s0 \<longrightarrow>
        map_option snd
          (handle (serve s0 reqs) \<lparr>meth = GET, path = ''/'', headers = hs, body = b\<rparr>) =
        Some (serve s0 reqs))"
proof (intro conjI impI)
  show "\<exists>dct. root s = Inr (dct, s)" by (simp add: root_def)
  assume "main_module declared env d = Inr s0"
  from loaded_app [OF this, of reqs] obtain a where
    "g_app (serve s0 reqs) = Some a" "routes a = std_routes" by blast
  from handle_root_loaded [OF this]
  show "map_option snd
          (handle (serve s0 reqs) \<lparr>meth = GET, path = ''/'', headers = hs, body = b\<rparr>) =
        Some (serve s0 reqs)" by simp
qed

theorem root_no_side_effects_witness:
  "main_module demo_declared demo_env demo_db = Inr demo_state \<and>
   map_option snd
     (handle (serve demo_state demo_requests)
        \<lparr>meth = GET, path = ''/'', headers = [], body = []\<rparr>) =
   Some (serve demo_state demo_requests)"
  by (rule conjI [OF demo_loads root_no_side_effects [THEN conjunct2, THEN mp, OF demo_loads]])

text \<open>
  C7, as the claim states it, fails: the application also answers GET /docs, a route that
  the constructor registers.
\<close>

theorem docs_route_served:
  "main_module demo_declared demo_env demo_db = Inr demo_state \<and>
   map_option fst
     (handle demo_state \<lparr>meth = GET, path = ''/docs'', headers = [], body = []\<rparr>) =
   Some \<lparr>status_code = 200, content = Html ''/docs''\<rparr>"
proof -
  from loaded_app [OF demo_loads, of "[]"] obtain a where
    a: "g_app demo_state = Some a" "routes a = std_routes" by auto
  have "map_option fst
     (handle demo_state \<lparr>meth = GET, path = ''/docs'', headers = [], body = []\<rparr>) =
   Some \<lparr>status_code = 200, content = Html ''/docs''\<rparr>"
    by (simp add: handle_def a std_routes_def route_matches_def call_endpoint_def)
  with demo_loads show ?thesis by (rule conjI)
qed

text \<open>
  C7, amended. The route table of the loaded application holds five routes and keeps
  them: the four documentation routes of the framework's constructor, each for GET and
  HEAD, and the route GET / of main.py, which is the only one that leads to a function of
  the program. Module load does not depend on the command line or on the environment.
\<close>

theorem registered_routes:
  assumes "main_module declared env d = Inr s0"
  shows "(\<exists>a. g_app (serve s0 reqs) = Some a
              \<and> routes a =
                  [\<lparr>route_path = ''/openapi.json'', methods = [GET, HEAD],
                    endpoint = OpenapiJson, route_status = 200\<rparr>,
                   \<lparr>route_path = ''/docs'', methods = [GET, HEAD],
                    endpoint = SwaggerUiHtml, route_status = 200\<rparr>,
                   \<lparr>route_path = ''/docs/oauth2-redirect'', methods = [GET, HEAD],
                    endpoint = SwaggerUiRedirect, route_status = 200\<rparr>,
                   \<lparr>route_path = ''/redoc'', methods = [GET, HEAD],
                    endpoint = RedocHtml, route_status = 200\<rparr>,
                   \<lparr>route_path = ''/'', methods = [GET],
                    endpoint = Root, route_status = 200\<rparr>]
              \<and> filter (\<lambda>r. endpoint r = Root) (routes a) =
                  [\<lparr>route_path = ''/'', methods = [GET],
                    endpoint = Root, route_status = 200\<rparr>])
         \<and> main_module declared env' d = main_module declared env d"
proof
  from loaded_app [OF assms, of reqs] obtain a where
    a: "g_app (serve s0 reqs) = Some a" "routes a = std_routes" by blast
  then show "\<exists>a. g_app (serve s0 reqs) = Some a
              \<and> routes a =
                  [\<lparr>route_path = ''/openapi.json'', methods = [GET, HEAD],
                    endpoint = OpenapiJson, route_status = 200\<rparr>,
                   \<lparr>route_path = ''/docs'', methods = [GET, HEAD],
                    endpoint = SwaggerUiHtml, route_status = 200\<rparr>,
                   \<lparr>route_path = ''/docs/oauth2-redirect'', methods = [GET, HEAD],
                    endpoint = SwaggerUiRedirect, route_status = 200\<rparr>,
                   \<lparr>route_path = ''/redoc'', methods = [GET, HEAD],
                    endpoint = RedocHtml, route_status = 200\<rparr>,
                   \<lparr>route_path = ''/'', methods = [GET],
                    endpoint = Root, route_status = 200\<rparr>]
              \<and> filter (\<lambda>r. endpoint r = Root) (routes a) =
                  [\<lparr>route_path = ''/'', methods = [GET],
                    endpoint = Root, route_status = 200\<rparr>]"
    by (simp add: std_routes_def)
  show "main_module declared env' d = main_module declared env d"
    by (simp add: main_module_def)
qed

theorem registered_routes_witness:
  "main_module demo_declared demo_env demo_db = Inr demo_state \<and>
   map_option routes (g_app (serve demo_state demo_requests)) = Some std_routes \<and>
   main_module demo_declared \<lparr>argv = [], environ = []\<rparr> demo_db =
     main_module demo_declared demo_env demo_db"
proof -
  note t = registered_routes [OF demo_loads, of demo_requests "\<lparr>argv = [], environ = []\<rparr>"]
  from t have "map_option routes (g_app (serve demo_state demo_requests)) = Some std_routes"
    by (auto simp: std_routes_def)
  moreover from t have "main_module demo_declared \<lparr>argv = [], environ = []\<rparr> demo_db =
     main_module demo_declared demo_env demo_db" by (rule conjunct2)
  ultimately show ?thesis using demo_loads by (intro conjI)
qed

text \<open>
  C8. Module load creates one engine, binds the global name to it and passes it to the
  one schema creation; after any sequence of requests the name is bound to that engine,
  one engine has been created, and no further schema creation has run.
\<close>

theorem engine_created_once:
  assumes "main_module declared env d = Inr s0"
  shows "engines_created (serve s0 reqs) = 1
         \<and> g_engine (serve s0 reqs) = Some \<lparr>engine_id = 0\<rparr>
         \<and> [n. EngineCreated n \<leftarrow> trace (serve s0 reqs)] = [0]
         \<and> [n. SchemaCreated n \<leftarrow> trace (serve s0 reqs)] = [0]"
  using assms by (simp add: serve_fields main_module_Inr)

theorem engine_created_once_witness:
  "main_module demo_declared demo_env demo_db = Inr demo_state
   \<and> engines_created (serve demo_state demo_requests) = 1
   \<and> g_engine (serve demo_state demo_requests) = Some \<lparr>engine_id = 0\<rparr>
   \<and> [n. EngineCreated n \<leftarrow> trace (serve demo_state demo_requests)] = [0]
   \<and> [n. SchemaCreated n \<leftarrow> trace (serve demo_state demo_requests)] = [0]"
  by (rule conjI [OF demo_loads engine_created_once [OF demo_loads]])

text \<open>
  C9. The root operation is total and deterministic: in every state it returns a value
  and never an error, and the mapping it returns is the same in any two states.
\<close>

theorem root_total_deterministic:
  "(\<exists>dct s1. root s = Inr (dct, s1)) \<and> (\<forall>e. root s \<noteq> Inl e)
   \<and> map_sum (\<lambda>e. e) fst (root s) = map_sum (\<lambda>e. e) fst (root s')"
  by (simp add: root_def)

text \<open>
  C10. Schema creation comes before serving: a load that succeeds has created the engine,
  then the schema, then the application object, then the route, in this order; while the
  schema is created the name \<open>app\<close> is unbound, and no request is handled before it is
  bound; and once the module has loaded, every declared table is in the database before
  and after every request.
\<close>

theorem schema_created_before_serving:
  "g_app (snd (import_engine (init_state d))) = None
   \<and> handle (init_state d) req = None
   \<and> handle (snd (import_engine (init_state d))) req = None
   \<and> (main_module declared env d = Inr s0 \<longrightarrow>
        trace s0 = [EngineCreated 0, SchemaCreated 0, AppConstructed, RouteRegistered GET ''/'']
        \<and> fst ` set declared \<subseteq> fst ` set (tables (db (serve s0 reqs))))"
proof (intro conjI impI)
  show "g_app (snd (import_engine (init_state d))) = None"
    by (simp add: import_engine_def init_state_def Let_def)
  show "handle (init_state d) req = None"
    by (simp add: handle_def init_state_def)
  show "handle (snd (import_engine (init_state d))) req = None"
    by (simp add: handle_def import_engine_def init_state_def Let_def)
  assume l: "main_module declared env d = Inr s0"
  then show "trace s0 =
      [EngineCreated 0, SchemaCreated 0, AppConstructed, RouteRegistered GET ''/'']"
    by (simp add: main_module_Inr)
  from l show "fst ` set declared \<subseteq> fst ` set (tables (db (serve s0 reqs)))"
    by (simp add: serve_fields main_module_Inr create_missing_names)
qed

theorem schema_created_before_serving_witness:
  "main_module demo_declared demo_env demo_db = Inr demo_state
   \<and> trace demo_state =
       [EngineCreated 0, SchemaCreated 0, AppConstructed, RouteRegistered GET ''/'']
   \<and> fst ` set demo_declared \<subseteq> fst ` set (tables (db (serve demo_state demo_requests)))"
  by (rule conjI [OF demo_loads
        schema_created_before_serving [THEN conjunct2, THEN conjunct2, THEN conjunct2,
          THEN mp, OF demo_loads]])

end
